theory Spec2Isabelle
  imports Main
begin

section \<open>The process environment\<close>

text \<open>
  The configuration loader of \<^verbatim>\<open>server/config/config.go\<close> reads the process
  environment through \<^verbatim>\<open>os.Getenv\<close>. The environment is a partial map from
  variable names to values; Go strings are byte sequences, and so is \<^typ>\<open>string\<close>.
  \<^verbatim>\<open>os.Getenv\<close> returns the empty string for a variable that is not set, so the
  caller cannot tell an unset variable from one set to the empty string.
\<close>

type_synonym environ = "string \<rightharpoonup> string"

definition Getenv :: "environ \<Rightarrow> string \<Rightarrow> string" where
  "Getenv env key = (case env key of None \<Rightarrow> [] | Some v \<Rightarrow> v)"

section \<open>Library functions the loader calls\<close>

text \<open>
  The loader calls \<^verbatim>\<open>strconv.Atoi\<close>, \<^verbatim>\<open>strconv.ParseInt\<close>,
  \<^verbatim>\<open>time.ParseDuration\<close>, \<^verbatim>\<open>strings.SplitSeq\<close> and
  \<^verbatim>\<open>strings.TrimSpace\<close> of the Go standard library. They are modelled here on
  bytes, by their documented behaviour. A Go function returning \<^verbatim>\<open>(v, err)\<close> is a
  pair whose second component is \<open>None\<close> for \<^verbatim>\<open>nil\<close>.
\<close>

datatype go_error =
    ErrSyntax
  | ErrRange
  | ErrInvalidDuration
  | ErrMissingUnit
  | ErrUnknownUnit string

definition is_digit :: "char \<Rightarrow> bool" where
  "is_digit c = (48 \<le> (of_char c :: nat) \<and> (of_char c :: nat) \<le> 57)"

definition digit_val :: "char \<Rightarrow> nat" where
  "digit_val c = of_char c - 48"

subsection \<open>strconv\<close>

text \<open>
  \<^verbatim>\<open>int\<close> is taken to be 64 bits wide (\<^verbatim>\<open>strconv.IntSize = 64\<close>), as on the
  64-bit platforms the server is built for. Values of type \<^verbatim>\<open>int\<close> and
  \<^verbatim>\<open>int64\<close> are integers in the range the parser checks.
\<close>

definition IntSize :: nat where
  "IntSize = 64"

definition maxUint64 :: nat where
  "maxUint64 = 2 ^ 64 - 1"

text \<open>
  The digit loop of \<^verbatim>\<open>ParseUint(s, 10, bitSize)\<close>: a byte that is not a decimal
  digit is a syntax error (the underscore is accepted for base 0 only); a value beyond
  \<open>2 ^ bitSize - 1\<close> is a range error, reported with the largest value.
\<close>

fun parseUint_digits :: "nat \<Rightarrow> nat \<Rightarrow> string \<Rightarrow> nat \<times> go_error option" where
  "parseUint_digits maxVal n [] = (n, None)"
| "parseUint_digits maxVal n (c # cs) =
     (if \<not> is_digit c then (0, Some ErrSyntax)
      else if n \<ge> maxUint64 div 10 + 1 then (maxVal, Some ErrRange)
      else if n * 10 + digit_val c > maxVal then (maxVal, Some ErrRange)
      else parseUint_digits maxVal (n * 10 + digit_val c) cs)"

definition ParseUint10 :: "string \<Rightarrow> nat \<Rightarrow> nat \<times> go_error option" where
  "ParseUint10 s bitSize =
     (if s = [] then (0, Some ErrSyntax)
      else parseUint_digits (2 ^ (if bitSize = 0 then IntSize else bitSize) - 1) 0 s)"

text \<open>
  \<^verbatim>\<open>ParseInt(s, 10, bitSize)\<close>: an optional sign, then \<^verbatim>\<open>ParseUint\<close>; a syntax
  error is passed on with value 0, a magnitude out of the signed range is a range error
  with the nearest bound.
\<close>

definition ParseInt10 :: "string \<Rightarrow> nat \<Rightarrow> int \<times> go_error option" where
  "ParseInt10 s bitSize =
     (case s of
        [] \<Rightarrow> (0, Some ErrSyntax)
      | c # cs \<Rightarrow>
          (let neg = (c = CHR ''-'');
               body = (if c = CHR ''+'' \<or> c = CHR ''-'' then cs else s);
               (un, err) = ParseUint10 body bitSize;
               cutoff = (2::nat) ^ ((if bitSize = 0 then IntSize else bitSize) - 1)
           in if err \<noteq> None \<and> err \<noteq> Some ErrRange then (0, err)
              else if \<not> neg \<and> un \<ge> cutoff then (int cutoff - 1, Some ErrRange)
              else if neg \<and> un > cutoff then (- int cutoff, Some ErrRange)
              else (if neg then - int un else int un, None)))"

text \<open>
  \<^verbatim>\<open>Atoi\<close>: strings of 1 to 18 bytes take a fast path that cannot overflow; all
  others go through \<^verbatim>\<open>ParseInt(s, 10, 0)\<close>.
\<close>

fun atoi_digits :: "nat \<Rightarrow> string \<Rightarrow> nat option" where
  "atoi_digits n [] = Some n"
| "atoi_digits n (c # cs) =
     (if \<not> is_digit c then None else atoi_digits (n * 10 + digit_val c) cs)"

definition Atoi :: "string \<Rightarrow> int \<times> go_error option" where
  "Atoi s =
     (case s of
        [] \<Rightarrow> ParseInt10 s 0
      | c # cs \<Rightarrow>
          if length s < 19 then
            (let body = (if c = CHR ''-'' \<or> c = CHR ''+'' then cs else s)
             in if body = [] then (0, Some ErrSyntax)
                else case atoi_digits 0 body of
                       None \<Rightarrow> (0, Some ErrSyntax)
                     | Some n \<Rightarrow> (if c = CHR ''-'' then - int n else int n, None))
          else ParseInt10 s 0)"

subsection \<open>strings\<close>

text \<open>
  \<^verbatim>\<open>strings.SplitSeq(s, ",")\<close> yields the substrings of \<open>s\<close> between the
  separators, in order: one more than there are separators. \<open>cur\<close> holds the bytes of
  the current piece, last byte first.
\<close>

fun split_from :: "char \<Rightarrow> string \<Rightarrow> string \<Rightarrow> string list" where
  "split_from sep cur [] = [rev cur]"
| "split_from sep cur (c # cs) =
     (if c = sep then rev cur # split_from sep [] cs
      else split_from sep (c # cur) cs)"

definition SplitSeq :: "string \<Rightarrow> char \<Rightarrow> string list" where
  "SplitSeq s sep = split_from sep [] s"

text \<open>
  \<^verbatim>\<open>strings.TrimSpace\<close> removes leading and trailing white space as defined by
  \<^verbatim>\<open>unicode.IsSpace\<close>, on the UTF-8 decoding of the string. The white space runes
  are the six ASCII ones (tab, line feed, vertical tab, form feed, carriage return,
  space), U+0085, U+00A0, U+1680, U+2000 to U+200A, U+2028, U+2029, U+202F, U+205F and
  U+3000. A rune decoded at a position is one of them exactly when the bytes there are
  its UTF-8 encoding, so the model works on the encodings.
\<close>

definition space_encodings :: "string list" where
  "space_encodings =
     [[CHR 0x09], [CHR 0x0A], [CHR 0x0B], [CHR 0x0C], [CHR 0x0D], [CHR 0x20],
      [CHR 0xC2, CHR 0x85], [CHR 0xC2, CHR 0xA0],
      [CHR 0xE1, CHR 0x9A, CHR 0x80],
      [CHR 0xE2, CHR 0x80, CHR 0x80], [CHR 0xE2, CHR 0x80, CHR 0x81],
      [CHR 0xE2, CHR 0x80, CHR 0x82], [CHR 0xE2, CHR 0x80, CHR 0x83],
      [CHR 0xE2, CHR 0x80, CHR 0x84], [CHR 0xE2, CHR 0x80, CHR 0x85],
      [CHR 0xE2, CHR 0x80, CHR 0x86], [CHR 0xE2, CHR 0x80, CHR 0x87],
      [CHR 0xE2, CHR 0x80, CHR 0x88], [CHR 0xE2, CHR 0x80, CHR 0x89],
      [CHR 0xE2, CHR 0x80, CHR 0x8A],
      [CHR 0xE2, CHR 0x80, CHR 0xA8], [CHR 0xE2, CHR 0x80, CHR 0xA9],
      [CHR 0xE2, CHR 0x80, CHR 0xAF],
      [CHR 0xE2, CHR 0x81, CHR 0x9F],
      [CHR 0xE3, CHR 0x80, CHR 0x80]]"

text \<open>The number of bytes of the white space rune that \<open>s\<close> starts with; 0 if none.\<close>

fun leading_width :: "string list \<Rightarrow> string \<Rightarrow> nat" where
  "leading_width [] s = 0"
| "leading_width (e # es) s =
     (if take (length e) s = e then length e else leading_width es s)"

function strip_leading :: "string list \<Rightarrow> string \<Rightarrow> string" where
  "strip_leading encs s =
     (if leading_width encs s = 0 \<or> s = [] then s
      else strip_leading encs (drop (leading_width encs s) s))"
  by pat_completeness auto
termination
  by (relation "measure (\<lambda>(encs, s). length s)") auto

definition TrimLeftSpace :: "string \<Rightarrow> string" where
  "TrimLeftSpace s = strip_leading space_encodings s"

definition TrimRightSpace :: "string \<Rightarrow> string" where
  "TrimRightSpace s = rev (strip_leading (map rev space_encodings) (rev s))"

definition TrimSpace :: "string \<Rightarrow> string" where
  "TrimSpace s = TrimRightSpace (TrimLeftSpace s)"

subsection \<open>time\<close>

text \<open>
  A \<^verbatim>\<open>time.Duration\<close> is a signed 64-bit count of nanoseconds.
  \<^verbatim>\<open>time.ParseDuration\<close> reads \<^verbatim>\<open>[-+]?([0-9]*(\.[0-9]*)?[a-z]+)+\<close>. It
  accumulates in \<^verbatim>\<open>uint64\<close>; the model uses natural numbers and writes the
  wrap-around of each addition out. The contribution of a fractional part is computed in
  \<^verbatim>\<open>float64\<close>, as \<^verbatim>\<open>uint64(float64(f) * (float64(unit) / scale))\<close>; that
  conversion is the parameter \<open>fl\<close> of the model (applied to \<open>f\<close>, \<open>unit\<close> and
  \<open>scale\<close>), and it is not called for a string without a non-zero fraction.
\<close>

type_synonym frac_conv = "nat \<Rightarrow> nat \<Rightarrow> nat \<Rightarrow> nat"

definition Nanosecond :: int where "Nanosecond = 1"
definition Microsecond :: int where "Microsecond = 1000 * Nanosecond"
definition Millisecond :: int where "Millisecond = 1000 * Microsecond"
definition Second :: int where "Second = 1000 * Millisecond"
definition Minute :: int where "Minute = 60 * Second"
definition Hour :: int where "Hour = 60 * Minute"

definition unitMap :: "string \<rightharpoonup> nat" where
  "unitMap =
     [''ns'' \<mapsto> nat Nanosecond,
      ''us'' \<mapsto> nat Microsecond,
      [CHR 0xC2, CHR 0xB5, CHR ''s''] \<mapsto> nat Microsecond,
      [CHR 0xCE, CHR 0xBC, CHR ''s''] \<mapsto> nat Microsecond,
      ''ms'' \<mapsto> nat Millisecond,
      ''s'' \<mapsto> nat Second,
      ''m'' \<mapsto> nat Minute,
      ''h'' \<mapsto> nat Hour]"

text \<open>\<^verbatim>\<open>leadingInt\<close>: the leading digits as a number; \<open>None\<close> on overflow.\<close>

fun leadingInt :: "nat \<Rightarrow> string \<Rightarrow> (nat \<times> string) option" where
  "leadingInt x [] = Some (x, [])"
| "leadingInt x (c # cs) =
     (if \<not> is_digit c then Some (x, c # cs)
      else if x > 2 ^ 63 div 10 then None
      else if x * 10 + digit_val c > 2 ^ 63 then None
      else leadingInt (x * 10 + digit_val c) cs)"

text \<open>
  \<^verbatim>\<open>leadingFraction\<close>: the leading digits as a number and the power of ten that
  scales it; digits beyond the precision of 63 bits are consumed and ignored.
\<close>

fun leadingFraction :: "nat \<Rightarrow> nat \<Rightarrow> bool \<Rightarrow> string \<Rightarrow> nat \<times> nat \<times> string" where
  "leadingFraction x scale overflow [] = (x, scale, [])"
| "leadingFraction x scale overflow (c # cs) =
     (if \<not> is_digit c then (x, scale, c # cs)
      else if overflow then leadingFraction x scale overflow cs
      else if x > (2 ^ 63 - 1) div 10 then leadingFraction x scale True cs
      else if x * 10 + digit_val c > 2 ^ 63 then leadingFraction x scale True cs
      else leadingFraction (x * 10 + digit_val c) (scale * 10) False cs)"

definition unit_byte :: "char \<Rightarrow> bool" where
  "unit_byte c = (\<not> (c = CHR ''.'' \<or> is_digit c))"

text \<open>
  One pass of the loop of \<^verbatim>\<open>ParseDuration\<close> over a non-empty rest \<open>s\<close>: a
  number, an optional fraction and a unit. It returns the nanoseconds of the group and
  the rest of the string.
\<close>

definition duration_group :: "frac_conv \<Rightarrow> string \<Rightarrow> go_error + (nat \<times> string)" where
  "duration_group fl s =
     (case s of
        [] \<Rightarrow> Inl ErrInvalidDuration
      | c # cs \<Rightarrow>
          if \<not> (c = CHR ''.'' \<or> is_digit c) then Inl ErrInvalidDuration
          else
            (case leadingInt 0 s of
               None \<Rightarrow> Inl ErrInvalidDuration
             | Some (v, s1) \<Rightarrow>
                 (let pre = (length s \<noteq> length s1);
                      (f, scale, post, s2) =
                        (case s1 of
                           [] \<Rightarrow> (0, 1, False, s1)
                         | c1 # s1' \<Rightarrow>
                             if c1 = CHR ''.'' then
                               (case leadingFraction 0 1 False s1' of
                                  (f, scale, r) \<Rightarrow> (f, scale, length s1' \<noteq> length r, r))
                             else (0, 1, False, s1));
                      u = takeWhile unit_byte s2;
                      s3 = dropWhile unit_byte s2
                  in if \<not> pre \<and> \<not> post then Inl ErrInvalidDuration
                     else if u = [] then Inl ErrMissingUnit
                     else
                       (case unitMap u of
                          None \<Rightarrow> Inl (ErrUnknownUnit u)
                        | Some unit \<Rightarrow>
                            if v > 2 ^ 63 div unit then Inl ErrInvalidDuration
                            else if f > 0 then
                              (let v' = (v * unit + fl f unit scale) mod 2 ^ 64
                               in if v' > 2 ^ 63 then Inl ErrInvalidDuration
                                  else Inr (v', s3))
                            else Inr (v * unit, s3)))))"

function duration_loop :: "frac_conv \<Rightarrow> nat \<Rightarrow> string \<Rightarrow> go_error + nat" where
  "duration_loop fl d s =
     (if s = [] then Inr d
      else
        (case duration_group fl s of
           Inl e \<Rightarrow> Inl e
         | Inr (v, rest) \<Rightarrow>
             if (d + v) mod 2 ^ 64 > 2 ^ 63 then Inl ErrInvalidDuration
             else duration_loop fl ((d + v) mod 2 ^ 64) rest))"
  by pat_completeness auto

lemma leadingInt_length:
  "leadingInt x s = Some (v, r) \<Longrightarrow> length r \<le> length s"
  by (induction x s rule: leadingInt.induct) (auto split: if_splits)

lemma leadingFraction_length:
  "leadingFraction x sc ov s = (f, sc', r) \<Longrightarrow> length r \<le> length s"
  by (induction x sc ov s rule: leadingFraction.induct) (auto split: if_splits)

lemma dropWhile_shorter:
  "takeWhile P xs \<noteq> [] \<Longrightarrow> length (dropWhile P xs) < length xs"
proof -
  assume "takeWhile P xs \<noteq> []"
  then have "0 < length (takeWhile P xs)" by simp
  moreover have "length (takeWhile P xs) + length (dropWhile P xs) = length xs"
    by (metis length_append takeWhile_dropWhile_id)
  ultimately show ?thesis by linarith
qed

lemma duration_group_length:
  assumes "duration_group fl s = Inr (v, rest)"
  shows "length rest < length s"
proof -
  obtain c cs where s: "s = c # cs"
    using assms by (cases s) (auto simp: duration_group_def)
  obtain v0 s1 where li: "leadingInt 0 s = Some (v0, s1)"
    using assms s by (auto simp: duration_group_def split: if_splits option.splits)
  have l1: "length s1 \<le> length s"
    using li by (rule leadingInt_length)
  define s2 where "s2 =
    (case s1 of [] \<Rightarrow> s1
     | c1 # s1' \<Rightarrow> if c1 = CHR ''.'' then snd (snd (leadingFraction 0 1 False s1')) else s1)"
  have l2: "length s2 \<le> length s1"
  proof (cases s1)
    case Nil
    then show ?thesis by (simp add: s2_def)
  next
    case (Cons c1 s1')
    have "length (snd (snd (leadingFraction 0 1 False s1'))) \<le> length s1'"
      by (rule leadingFraction_length [of 0 1 False s1' "fst (leadingFraction 0 1 False s1')"
            "fst (snd (leadingFraction 0 1 False s1'))"]) simp
    then show ?thesis
      by (simp add: s2_def Cons)
  qed
  have rest: "rest = dropWhile unit_byte s2 \<and> takeWhile unit_byte s2 \<noteq> []"
    using assms s li
    by (auto simp: duration_group_def s2_def Let_def
        split: if_splits option.splits list.splits prod.splits)
  with dropWhile_shorter [of unit_byte s2] have "length rest < length s2"
    by simp
  with l1 l2 show ?thesis by linarith
qed

termination duration_loop
  by (relation "measure (\<lambda>(fl, d, s). length s)") (auto dest: duration_group_length)

text \<open>The conversion \<^verbatim>\<open>int64(x)\<close> of an integer: two's complement wrap-around.\<close>

definition to_int64 :: "int \<Rightarrow> int" where
  "to_int64 x = (x + 2 ^ 63) mod 2 ^ 64 - 2 ^ 63"

definition ParseDuration :: "frac_conv \<Rightarrow> string \<Rightarrow> int \<times> go_error option" where
  "ParseDuration fl orig =
     (let (neg, s) =
            (case orig of
               [] \<Rightarrow> (False, orig)
             | c # cs \<Rightarrow>
                 if c = CHR ''-'' \<or> c = CHR ''+'' then (c = CHR ''-'', cs)
                 else (False, orig))
      in if s = ''0'' then (0, None)
         else if s = [] then (0, Some ErrInvalidDuration)
         else
           (case duration_loop fl 0 s of
              Inl e \<Rightarrow> (0, Some e)
            | Inr d \<Rightarrow>
                if neg then (to_int64 (- to_int64 (int d)), None)
                else if d > 2 ^ 63 - 1 then (0, Some ErrInvalidDuration)
                else (to_int64 (int d), None)))"

section \<open>The typed parsing primitives\<close>

definition getEnvOrDefault :: "environ \<Rightarrow> string \<Rightarrow> string \<Rightarrow> string" where
  "getEnvOrDefault env key defaultValue =
     (let v = Getenv env key in if v \<noteq> [] then v else defaultValue)"

definition getEnvAsInt :: "environ \<Rightarrow> string \<Rightarrow> int \<Rightarrow> int" where
  "getEnvAsInt env key defaultValue =
     (let v = Getenv env key in
      if v \<noteq> [] then
        (case Atoi v of
           (parsed, None) \<Rightarrow> parsed
         | (parsed, Some err) \<Rightarrow> defaultValue)
      else defaultValue)"

definition getEnvAsInt64 :: "environ \<Rightarrow> string \<Rightarrow> int \<Rightarrow> int" where
  "getEnvAsInt64 env key defaultValue =
     (let v = Getenv env key in
      if v \<noteq> [] then
        (case ParseInt10 v 64 of
           (parsed, None) \<Rightarrow> parsed
         | (parsed, Some err) \<Rightarrow> defaultValue)
      else defaultValue)"

definition getEnvAsDuration :: "frac_conv \<Rightarrow> environ \<Rightarrow> string \<Rightarrow> string \<Rightarrow> int" where
  "getEnvAsDuration fl env key defaultValue =
     (let v = (if Getenv env key = [] then defaultValue else Getenv env key) in
      case ParseDuration fl v of
        (duration, None) \<Rightarrow> duration
      | (duration, Some err) \<Rightarrow> fst (ParseDuration fl defaultValue))"

text \<open>
  The loop of \<^verbatim>\<open>getEnvAsStringSlice\<close> appends the trimmed, non-empty pieces to a
  slice that starts out \<^verbatim>\<open>nil\<close>; a \<^verbatim>\<open>nil\<close> slice is the empty list.
\<close>

fun collect_items :: "string list \<Rightarrow> string list \<Rightarrow> string list" where
  "collect_items result [] = result"
| "collect_items result (item # items) =
     (let trimmed = TrimSpace item in
      if trimmed \<noteq> [] then collect_items (result @ [trimmed]) items
      else collect_items result items)"

definition getEnvAsStringSlice :: "environ \<Rightarrow> string \<Rightarrow> string list \<Rightarrow> string list" where
  "getEnvAsStringSlice env key defaultValue =
     (let v = Getenv env key in
      if v = [] then defaultValue
      else collect_items [] (SplitSeq v CHR '',''))"

section \<open>The configuration snapshot\<close>

text \<open>
  The struct \<^verbatim>\<open>Config\<close>, field by field. Two remarks on the source as it stands:
  \<^item> \<^verbatim>\<open>LoadConfig\<close> assigns the fields \<^verbatim>\<open>AllowedImageTypes\<close>,
    \<^verbatim>\<open>AllowedVideoTypes\<close> and \<^verbatim>\<open>AllowedDocumentTypes\<close>, which the struct
    declaration does not list; the record has them, with the type of the values assigned.
  \<^item> \<^verbatim>\<open>MaxFileSize\<close> is declared \<^verbatim>\<open>int64\<close> and first given the
    \<^verbatim>\<open>int64\<close> read from \<^verbatim>\<open>MAX_FILE_SIZE\<close>; \<^verbatim>\<open>LoadConfig\<close> then
    assigns it a \<^verbatim>\<open>map[string]int64\<close>. The field holds either, as
    \<open>file_size_limit\<close>.
\<close>

datatype file_size_limit =
    Bytes int
  | PerCategory "string \<rightharpoonup> int"

record Config =
  ServerPort :: string
  ServerHost :: string
  ApiKeys :: string
  AllowedOrigins :: "string list"
  RateLimitAttempts :: int
  RateLimitDuration :: int
  MaxFileSize :: file_size_limit
  SkippedApiEndpoints :: "string list"
  TrustedProxies :: "string list"
  CookieDomain :: string
  DatabaseRootURL :: string
  DatabaseName :: string
  DatabaseURL :: string
  RedisAddress :: string
  RedisPassword :: string
  AccessTokenSecret :: string
  RefreshTokenSecret :: string
  SMTPHost :: string
  SMTPPort :: int
  SMTPEmail :: string
  SMTPPassword :: string
  AppName :: string
  AppEnv :: string
  FrontendURL :: string
  CloudName :: string
  CloudSecret :: string
  CloudApiKey :: string
  CloudFolder :: string
  GoogleClientID :: string
  GoogleClientSecret :: string
  GoogleRedirectURL :: string
  FrontendRedirectURL :: string
  StripeWebhookSecret :: string
  StripeCancelUrlDev :: string
  StripeSuccessUrlDev :: string
  StripeCancelUrlProd :: string
  StripeSuccessUrlProd :: string
  StripeSecretKey :: string
  StripePublishableKey :: string
  AllowedImageTypes :: "string list"
  AllowedVideoTypes :: "string list"
  AllowedDocumentTypes :: "string list"

text \<open>
  The process-wide state: the package variable \<^verbatim>\<open>AppConfig\<close>, a pointer that is
  \<^verbatim>\<open>nil\<close> (\<open>None\<close>) until \<^verbatim>\<open>LoadConfig\<close> has run, and the bytes written
  to standard output. Reading or writing a field through a \<^verbatim>\<open>nil\<close> pointer is a
  run-time panic.
\<close>

record state =
  AppConfig :: "Config option"
  Stdout :: string

datatype panic = NilPointerDereference

definition assign_field :: "(Config \<Rightarrow> Config) \<Rightarrow> state \<Rightarrow> panic + state" where
  "assign_field upd s =
     (case AppConfig s of
        None \<Rightarrow> Inl NilPointerDereference
      | Some c \<Rightarrow> Inr (s\<lparr>AppConfig := Some (upd c)\<rparr>))"

definition and_then :: "panic + 'a \<Rightarrow> ('a \<Rightarrow> panic + 'b) \<Rightarrow> panic + 'b" where
  "and_then r f = (case r of Inl e \<Rightarrow> Inl e | Inr x \<Rightarrow> f x)"

definition Println :: "string \<Rightarrow> state \<Rightarrow> state" where
  "Println line s = s\<lparr>Stdout := Stdout s @ line @ [CHR 0x0A]\<rparr>"

definition load_notice :: string where
  "load_notice =
     [CHR 0xC3, CHR 0xA2, CHR 0xC5, CHR 0x93, CHR 0xE2, CHR 0x80, CHR 0xA6]
     @ '' Global configuration load complete''"

section \<open>LoadConfig\<close>

definition LoadConfig :: "frac_conv \<Rightarrow> environ \<Rightarrow> state \<Rightarrow> panic + state" where
  "LoadConfig fl env s0 =
     (let s1 = s0\<lparr>AppConfig := Some \<lparr>
            ServerPort = getEnvOrDefault env ''PORT'' ''8080'',
            ServerHost = getEnvOrDefault env ''HOST'' ''localhost'',
            ApiKeys = getEnvOrDefault env ''API_KEY'' ''your-api-keys'',
            AllowedOrigins =
              getEnvAsStringSlice env ''ALLOWED_ORIGINS'' [''http://localhost:3000''],
            RateLimitAttempts = getEnvAsInt env ''RATE_LIMIT_ATTEMPTS'' 100,
            RateLimitDuration = getEnvAsDuration fl env ''RATE_LIMIT_DURATION'' ''60s'',
            MaxFileSize = Bytes (getEnvAsInt64 env ''MAX_FILE_SIZE'' (12 * 2 ^ 20)),
            SkippedApiEndpoints =
              getEnvAsStringSlice env ''SKIPPED_API_ENDPOINTS'' [''/health''],
            TrustedProxies = getEnvAsStringSlice env ''TRUSTED_PROXIES'' [''localhost''],
            CookieDomain = getEnvOrDefault env ''COOKIE_DOMAIN'' ''localhost'',
            DatabaseRootURL = getEnvOrDefault env ''DB_ROOT_URL'' ''your-db-root-url'',
            DatabaseName = getEnvOrDefault env ''DB_NAME'' ''your-db-name'',
            DatabaseURL = getEnvOrDefault env ''DB_URL'' ''your-db-url'',
            RedisAddress = getEnvOrDefault env ''REDIS_ADDRESS'' ''localhost:6379'',
            RedisPassword = getEnvOrDefault env ''REDIS_PASSWORD'' [],
            AccessTokenSecret = getEnvOrDefault env ''ACCESS_TOKEN_SECRET'' ''your-secret-key'',
            RefreshTokenSecret =
              getEnvOrDefault env ''REFRESH_TOKEN_SECRET'' ''your-refresh-token-secret'',
            SMTPHost = getEnvOrDefault env ''SMTP_HOST'' [],
            SMTPPort = getEnvAsInt env ''SMTP_PORT'' 587,
            SMTPEmail = getEnvOrDefault env ''SMTP_EMAIL'' [],
            SMTPPassword = getEnvOrDefault env ''SMTP_PASSWORD'' [],
            AppName = getEnvOrDefault env ''APP_NAME'' ''Asset Management System'',
            AppEnv = getEnvOrDefault env ''APP_ENV'' ''development'',
            FrontendURL = getEnvOrDefault env ''FRONTEND_URL'' ''http://localhost:5173'',
            CloudName =
              getEnvOrDefault env ''CLOUDINARY_CLOUD_NAME'' ''your-cloudinary-cloud-name'',
            CloudSecret =
              getEnvOrDefault env ''CLOUDINARY_API_SECRET'' ''your-cloudinary-api-secret'',
            CloudApiKey =
              getEnvOrDefault env ''CLOUDINARY_API_KEY'' ''your-cloudinary-api-key'',
            CloudFolder = getEnvOrDefault env ''CLOUDINARY_FOLDER'' ''asset_management_app'',
            GoogleClientID = getEnvOrDefault env ''GOOGLE_CLIENT_ID'' ''your-google-client-id'',
            GoogleClientSecret =
              getEnvOrDefault env ''GOOGLE_CLIENT_SECRET'' ''your-google-client-secret'',
            GoogleRedirectURL =
              getEnvOrDefault env ''GOOGLE_REDIRECT_URL''
                ''http://localhost:5005/api/v1/users/google/callback'',
            FrontendRedirectURL =
              getEnvOrDefault env ''FRONTEND_REDIRECT_URL'' ''http://localhost:5173'',
            StripeWebhookSecret =
              getEnvOrDefault env ''STRIPE_WEBHOOK_SECRET'' ''your-stripe-webhook-secret'',
            StripeCancelUrlDev =
              getEnvOrDefault env ''STRIPE_CANCEL_URL_DEV''
                ''http://localhost:5173/checkout/cancel'',
            StripeSuccessUrlDev =
              getEnvOrDefault env ''STRIPE_SUCCESS_URL_DEV''
                ''http://localhost:5173/checkout/success'',
            StripeCancelUrlProd =
              getEnvOrDefault env ''STRIPE_CANCEL_URL_PROD''
                ''https://your-production-url/checkout/cancel'',
            StripeSuccessUrlProd =
              getEnvOrDefault env ''STRIPE_SUCCESS_URL_PROD''
                ''https://your-production-url/checkout/success'',
            StripeSecretKey =
              getEnvOrDefault env ''STRIPE_SECRET_KEY'' ''your-stripe-secret-key'',
            StripePublishableKey =
              getEnvOrDefault env ''STRIPE_PUBLISHABLE_KEY'' ''your-stripe-publishable-key'',
            AllowedImageTypes = [],
            AllowedVideoTypes = [],
            AllowedDocumentTypes = []\<rparr>\<rparr>
      in
      and_then (assign_field (\<lambda>c. c\<lparr>AllowedImageTypes :=
          getEnvAsStringSlice env ''ALLOWED_IMAGE_TYPES'' [''image/jpeg'', ''image/png'']\<rparr>) s1)
       (\<lambda>s2.
      and_then (assign_field (\<lambda>c. c\<lparr>AllowedVideoTypes :=
          getEnvAsStringSlice env ''ALLOWED_VIDEO_TYPES'' [''video/mp4'']\<rparr>) s2)
       (\<lambda>s3.
      and_then (assign_field (\<lambda>c. c\<lparr>AllowedDocumentTypes :=
          getEnvAsStringSlice env ''ALLOWED_DOCUMENT_TYPES'' [''application/pdf'']\<rparr>) s3)
       (\<lambda>s4.
      and_then (assign_field (\<lambda>c. c\<lparr>MaxFileSize := PerCategory
          [''images'' \<mapsto> getEnvAsInt64 env ''MAX_IMAGE_SIZE'' (2 * 2 ^ 20),
           ''videos'' \<mapsto> getEnvAsInt64 env ''MAX_VIDEO_SIZE'' (100 * 2 ^ 20),
           ''documents'' \<mapsto> getEnvAsInt64 env ''MAX_DOCUMENT_SIZE'' (10 * 2 ^ 20)]\<rparr>) s4)
       (\<lambda>s5. Inr (Println load_notice s5))))))"

section \<open>The derived accessors\<close>

definition GetServerAddress :: "state \<Rightarrow> panic + string" where
  "GetServerAddress s =
     (case AppConfig s of
        None \<Rightarrow> Inl NilPointerDereference
      | Some c \<Rightarrow> Inr (ServerHost c @ '':'' @ ServerPort c))"

definition IsProduction :: "state \<Rightarrow> panic + bool" where
  "IsProduction s =
     (case AppConfig s of
        None \<Rightarrow> Inl NilPointerDereference
      | Some c \<Rightarrow> Inr (AppEnv c = ''production''))"

definition IsDevelopment :: "state \<Rightarrow> panic + bool" where
  "IsDevelopment s =
     (case AppConfig s of
        None \<Rightarrow> Inl NilPointerDereference
      | Some c \<Rightarrow> Inr (AppEnv c = ''development''))"

text \<open>
  The state of the process at its start: the package variable \<^verbatim>\<open>AppConfig\<close> is
  \<^verbatim>\<open>nil\<close> and nothing has been printed.
\<close>

definition initial_state :: state where
  "initial_state = \<lparr>AppConfig = None, Stdout = []\<rparr>"

text \<open>
  An instance of the fraction conversion for evaluating the loader on concrete
  environments: the exact quotient, truncated.
\<close>

definition exact_frac :: frac_conv where
  "exact_frac f unit scale = f * unit div scale"

section \<open>Properties of the loader\<close>

lemmas load_defs = LoadConfig_def assign_field_def and_then_def Println_def

lemma LoadConfig_total:
  "\<exists>s c. LoadConfig fl env s0 = Inr s \<and> AppConfig s = Some c \<and>
     Stdout s = Stdout s0 @ load_notice @ [CHR 0x0A]"
  by (simp add: load_defs)

lemma LoadConfig_server_fields:
  "LoadConfig fl env s0 = Inr s \<Longrightarrow> AppConfig s = Some c \<Longrightarrow>
     ServerHost c = getEnvOrDefault env ''HOST'' ''localhost'' \<and>
     ServerPort c = getEnvOrDefault env ''PORT'' ''8080'' \<and>
     AppEnv c = getEnvOrDefault env ''APP_ENV'' ''development''"
  by (auto simp add: load_defs)

text \<open>
  C8. While \<^verbatim>\<open>AppConfig\<close> is \<^verbatim>\<open>nil\<close>, each of \<^verbatim>\<open>GetServerAddress\<close>,
  \<^verbatim>\<open>IsProduction\<close> and \<^verbatim>\<open>IsDevelopment\<close> fails with a nil pointer
  dereference. Once a snapshot is installed, each returns a value computed from that
  snapshot alone; the server address is the host, a colon and the port.
\<close>

theorem accessors_by_phase:
  "(AppConfig s = None \<longrightarrow>
      GetServerAddress s = Inl NilPointerDereference \<and>
      IsProduction s = Inl NilPointerDereference \<and>
      IsDevelopment s = Inl NilPointerDereference) \<and>
   (\<forall>c. AppConfig s = Some c \<longrightarrow>
      GetServerAddress s = Inr (ServerHost c @ '':'' @ ServerPort c) \<and>
      IsProduction s = Inr (AppEnv c = ''production'') \<and>
      IsDevelopment s = Inr (AppEnv c = ''development''))"
  by (simp add: GetServerAddress_def IsProduction_def IsDevelopment_def)

theorem accessors_by_phase_witness:
  "GetServerAddress initial_state = Inl NilPointerDereference \<and>
   IsProduction initial_state = Inl NilPointerDereference \<and>
   IsDevelopment initial_state = Inl NilPointerDereference \<and>
   and_then
     (LoadConfig exact_frac [''HOST'' \<mapsto> ''api.example.com'', ''PORT'' \<mapsto> ''9090'']
        initial_state)
     GetServerAddress = Inr ''api.example.com:9090''"
proof -
  have none: "AppConfig initial_state = None"
    by (simp add: initial_state_def)
  obtain s c where
    load: "LoadConfig exact_frac [''HOST'' \<mapsto> ''api.example.com'', ''PORT'' \<mapsto> ''9090'']
             initial_state = Inr s"
    and some: "AppConfig s = Some c"
    using LoadConfig_total by blast
  from LoadConfig_server_fields [OF load some]
  have fields: "ServerHost c = ''api.example.com'' \<and> ServerPort c = ''9090''"
    by (simp add: getEnvOrDefault_def Getenv_def)
  from accessors_by_phase [of s] some fields
  have "GetServerAddress s = Inr ''api.example.com:9090''"
    by simp
  with load accessors_by_phase [of initial_state] none show ?thesis
    by (simp add: and_then_def)
qed

end
